theory Spec2Isabelle
  imports Main
begin

section \<open>Python values used by \<open>ytmusicapi/ytmusic.py\<close>\<close>

text \<open>
  Every \<open>raise\<close> of the source and every exception a library call can throw is a value of
  \<open>error\<close>; the payload is its message. The source itself only ever raises the plain class
  \<open>Exception\<close>, at line 119 (unsupported language), line 143 (cookie without the required
  value) and line 173 (response with an error status). The other constructors stand for
  exceptions raised by the Python runtime (\<open>KeyError\<close>, \<open>TypeError\<close>, \<open>AttributeError\<close>;
  their payload is a short description, as the runtime's wording varies between versions) or
  by a library (\<open>OtherError\<close>: \<open>OSError\<close>, a JSON decoding error, an HTTP client error, ...).
\<close>

datatype error =
    Exception string
  | KeyError string
  | TypeError string
  | AttributeError string
  | OtherError string

fun str_exc :: "error \<Rightarrow> string" where
  "str_exc (Exception m) = m"
| "str_exc (KeyError m) = m"
| "str_exc (TypeError m) = m"
| "str_exc (AttributeError m) = m"
| "str_exc (OtherError m) = m"

text \<open>Decoded JSON. A Python \<open>dict\<close> keeps insertion order, so it is an association list.\<close>

datatype json =
    JNull
  | JBool bool
  | JNum int
  | JStr string
  | JArr "json list"
  | JObj "(string \<times> json) list"

type_synonym dict = "(string \<times> json) list"

text \<open>Truth value of an optional string argument (\<open>if auth:\<close>, \<open>if user:\<close>): \<open>None\<close> and
  the empty string are false.\<close>

fun truthy :: "string option \<Rightarrow> bool" where
  "truthy None = False"
| "truthy (Some s) = (s \<noteq> [])"

text \<open>\<open>sep.join(xs)\<close>\<close>

fun join :: "string \<Rightarrow> string list \<Rightarrow> string" where
  "join sep [] = []"
| "join sep [x] = x"
| "join sep (x # y # ys) = x @ sep @ join sep (y # ys)"

text \<open>\<open>str(n)\<close> for an integer: decimal digits, a leading minus sign for a negative one.\<close>

definition digit_char :: "nat \<Rightarrow> char" where
  "digit_char d = ''0123456789'' ! d"

function str_nat :: "nat \<Rightarrow> string" where
  "str_nat n = (if n < 10 then [digit_char n] else str_nat (n div 10) @ [digit_char (n mod 10)])"
  by pat_completeness auto
termination
  by (relation "measure id") auto

definition str_int :: "int \<Rightarrow> string" where
  "str_int i = (if i < 0 then CHR ''-'' # str_nat (nat (- i)) else str_nat (nat i))"

text \<open>\<open>s.lower()\<close> on the ASCII letters (header names are ASCII).\<close>

definition lower_char :: "char \<Rightarrow> char" where
  "lower_char c =
     (case map_of (zip ''ABCDEFGHIJKLMNOPQRSTUVWXYZ'' ''abcdefghijklmnopqrstuvwxyz'') c of
        Some d \<Rightarrow> d
      | None \<Rightarrow> c)"

definition lower :: "string \<Rightarrow> string" where
  "lower s = map lower_char s"

subsection \<open>Dictionaries\<close>

text \<open>\<open>d[k] = v\<close>: an existing key keeps its position, a new key goes to the end.\<close>

fun dict_setitem :: "string \<Rightarrow> json \<Rightarrow> dict \<Rightarrow> dict" where
  "dict_setitem k v [] = [(k, v)]"
| "dict_setitem k v ((k', v') # d) =
     (if k' = k then (k, v) # d else (k', v') # dict_setitem k v d)"

text \<open>\<open>d.update(other)\<close>: every item of \<open>other\<close>, in its order, is stored into \<open>d\<close>.\<close>

definition dict_update :: "dict \<Rightarrow> dict \<Rightarrow> dict" where
  "dict_update d other = fold (\<lambda>(k, v). dict_setitem k v) other d"

text \<open>\<open>obj[k]\<close> with a string key: a missing key is a \<open>KeyError\<close>; anything that is not a
  dict cannot be indexed by a string.\<close>

fun py_getitem :: "json \<Rightarrow> string \<Rightarrow> error + json" where
  "py_getitem (JObj d) k =
     (case map_of d k of None \<Rightarrow> Inl (KeyError k) | Some v \<Rightarrow> Inr v)"
| "py_getitem _ k = Inl (TypeError ''object is not subscriptable by a string key'')"

text \<open>\<open>obj[k] = v\<close> with a string key.\<close>

fun py_setitem :: "json \<Rightarrow> string \<Rightarrow> json \<Rightarrow> error + json" where
  "py_setitem (JObj d) k v = Inr (JObj (dict_setitem k v d))"
| "py_setitem _ k v = Inl (TypeError ''object does not support item assignment by a string key'')"

text \<open>\<open>obj.get(k, default)\<close>: only a dict has the method.\<close>

fun py_get :: "json \<Rightarrow> string \<Rightarrow> json \<Rightarrow> error + json" where
  "py_get (JObj d) k dflt = Inr (case map_of d k of None \<Rightarrow> dflt | Some v \<Rightarrow> v)"
| "py_get _ k dflt = Inl (AttributeError ''object has no attribute get'')"

text \<open>\<open>d[k1][k2][k3] = v\<close> on a nested dict. Python mutates the innermost dict, which the
  outer ones alias; the pure model writes the changed dicts back along the path.\<close>

definition set_nested :: "dict \<Rightarrow> string \<Rightarrow> string \<Rightarrow> string \<Rightarrow> json \<Rightarrow> error + dict" where
  "set_nested d k1 k2 k3 v =
     (case py_getitem (JObj d) k1 of
        Inl e \<Rightarrow> Inl e
      | Inr a \<Rightarrow>
          (case py_getitem a k2 of
             Inl e \<Rightarrow> Inl e
           | Inr b \<Rightarrow>
               (case py_setitem b k3 v of
                  Inl e \<Rightarrow> Inl e
                | Inr b' \<Rightarrow>
                    (case py_setitem a k2 b' of
                       Inl e \<Rightarrow> Inl e
                     | Inr a' \<Rightarrow> Inr (dict_setitem k1 a' d)))))"

subsection \<open>Case-insensitive header mapping\<close>

text \<open>
  \<open>requests.structures.CaseInsensitiveDict\<close>: one entry per lower-cased name; an entry
  keeps the spelling of the name it was last stored with, and its position.
\<close>

type_synonym headers = "(string \<times> string) list"

definition ci_get :: "headers \<Rightarrow> string \<Rightarrow> string option" where
  "ci_get h k = map_of (map (\<lambda>(n, v). (lower n, v)) h) (lower k)"

fun ci_setitem :: "string \<Rightarrow> string \<Rightarrow> headers \<Rightarrow> headers" where
  "ci_setitem k v [] = [(k, v)]"
| "ci_setitem k v ((n, w) # h) =
     (if lower n = lower k then (k, v) # h else (n, w) # ci_setitem k v h)"

definition ci_update :: "headers \<Rightarrow> headers \<Rightarrow> headers" where
  "ci_update h other = fold (\<lambda>(k, v). ci_setitem k v) other h"

section \<open>The client and its environment\<close>

record request =
  req_url :: string
  req_json :: dict
  req_headers :: headers
  req_proxies :: "(string \<times> string) list option"
  req_cookies :: "(string \<times> string) list"

text \<open>
  The response object as \<open>_send_request\<close> reads it: \<open>status\<close>, \<open>status_code\<close> (\<open>None\<close>
  when the object has no such attribute), \<open>reason\<close>, and what
  \<open>await response.json(loads=orjson.loads)\<close> gives.
\<close>

record response =
  status :: int
  status_code :: "int option"
  reason :: string
  json_body :: "error + json"

text \<open>
  What the constructor and \<open>_send_request\<close> take from outside \<open>ytmusic.py\<close>: the file
  system, the JSON decoder, the HTTP session, and the constants and tables of
  \<open>ytmusicapi.helpers\<close>. The theorems with an environment \<open>E\<close> hold for every environment.
  \<^item> \<open>load_file p\<close> is \<open>CaseInsensitiveDict(orjson.load(open(p)))\<close>, \<open>loads s\<close> is
    \<open>CaseInsensitiveDict(orjson.loads(s))\<close>; a credential bundle maps header names to
    strings;
  \<^item> \<open>initialize_headers\<close> is the default header table \<open>initialize_headers()\<close>, read as
    the same kind of mapping; \<open>initialize_context\<close> is the table \<open>initialize_context()\<close>;
  \<^item> \<open>gather_visitor_id h\<close> is the value of
    \<open>asyncio.gather([get_visitor_id(self._send_get_request)])[0]\<close> when the headers are \<open>h\<close>;
  \<^item> \<open>listdir_locales\<close> is \<open>os.listdir(locale_dir)\<close>;
  \<^item> \<open>translation l\<close> is \<open>gettext.translation\<close> and \<open>browsing.Parser\<close> for language \<open>l\<close>;
  \<^item> \<open>cookie_pairs\<close> reads a cookie header as its name/value pairs;
  \<^item> \<open>hash_scheme t s\<close> is the hash of the timestamp \<open>t\<close> and the string \<open>s\<close>, as text;
  \<^item> \<open>post\<close> is \<open>self._session.post\<close> up to the response object.
\<close>

record env =
  isfile :: "string \<Rightarrow> bool"
  load_file :: "string \<Rightarrow> error + headers"
  loads :: "string \<Rightarrow> error + headers"
  initialize_headers :: headers
  gather_visitor_id :: "headers \<Rightarrow> error + headers"
  initialize_context :: dict
  listdir_locales :: "error + string list"
  translation :: "string \<Rightarrow> error + unit"
  cookie_pairs :: "string \<Rightarrow> (string \<times> string) list"
  hash_scheme :: "int \<Rightarrow> string \<Rightarrow> string"
  YTM_BASE_API :: string
  YTM_PARAMS :: string
  post :: "request \<Rightarrow> error + response"

text \<open>The attributes of a \<open>YTMusic\<close> instance; \<open>sapisid\<close> is \<open>None\<close> when the attribute
  was never assigned.\<close>

record client =
  auth :: "string option"
  headers :: headers
  context' :: dict
  language :: string
  sapisid :: "string option"
  proxies :: "(string \<times> string) list option"
  cookies :: "(string \<times> string) list"

text \<open>What the constructor does besides building the instance: a printed line, and one
  evaluation of the bootstrap expression of line 110.\<close>

datatype effect = Print string | Bootstrap

section \<open>Helpers of \<open>ytmusicapi.helpers\<close>\<close>

text \<open>
  Modelled from the spec: \<open>sapisid_from_cookie\<close> of \<open>ytmusicapi.helpers\<close>, which is not
  among the sources. The spec: the store must locate a specific named value inside the
  \<open>cookie\<close> header field, and construction fails when it is absent, also when the bundle has no
  cookie field. The name is the one of the constructor's message, and absence is the
  \<open>KeyError\<close> the constructor handles.
\<close>

definition sapisid_from_cookie :: "env \<Rightarrow> string option \<Rightarrow> error + string" where
  "sapisid_from_cookie E raw_cookie =
     (case raw_cookie of
        None \<Rightarrow> Inl (KeyError ''__Secure-3PAPISID'')
      | Some c \<Rightarrow>
          (case map_of (cookie_pairs E c) ''__Secure-3PAPISID'' of
             None \<Rightarrow> Inl (KeyError ''__Secure-3PAPISID'')
           | Some v \<Rightarrow> Inr v))"

text \<open>
  Modelled from the spec: \<open>get_authorization\<close> of \<open>ytmusicapi.helpers\<close>, which is not among
  the sources. The spec: the secret and the origin, joined by a separator (the caller does
  that), are combined with a timestamp by a one-way hashing scheme, producing
  \<open>SAPISIDHASH <timestamp>_<hash>\<close>. The timestamp \<open>t\<close> is the clock reading of the call.
\<close>

definition get_authorization :: "(int \<Rightarrow> string \<Rightarrow> string) \<Rightarrow> int \<Rightarrow> string \<Rightarrow> string" where
  "get_authorization H t a = ''SAPISIDHASH '' @ str_int t @ ''_'' @ H t a"

section \<open>\<open>YTMusic.__init__\<close>\<close>

text \<open>Lines 90 to 106, \<open># prepare headers\<close>. The result is \<open>None\<close> when \<open>self.headers\<close> was
  not assigned.\<close>

definition prepare_headers :: "env \<Rightarrow> string option \<Rightarrow> headers option \<times> effect list" where
  "prepare_headers E a =
     (case a of
        None \<Rightarrow> (Some (initialize_headers E), [])
      | Some s \<Rightarrow>
          if s = [] then (Some (initialize_headers E), [])
          else
            (case (if isfile E s then load_file E s else loads E s) of
               Inr h \<Rightarrow> (Some h, [])
             | Inl e \<Rightarrow>
                 (None,
                  [Print (''Failed loading provided credentials. Make sure to provide a string or a file path. ''
                          @ ''Reason: '' @ str_exc e)])))"

text \<open>Lines 108 to 111.\<close>

definition resolve_visitor_id :: "env \<Rightarrow> headers option \<Rightarrow> (error + headers) \<times> effect list" where
  "resolve_visitor_id E ho =
     (case ho of
        None \<Rightarrow> (Inl (AttributeError ''YTMusic object has no attribute headers''), [])
      | Some h \<Rightarrow>
          if ci_get h ''x-goog-visitor-id'' \<noteq> None then (Inr h, [])
          else
            (case gather_visitor_id E h of
               Inl e \<Rightarrow> (Inl e, [Bootstrap])
             | Inr m \<Rightarrow> (Inr (ci_update h m), [Bootstrap])))"

text \<open>Lines 113 to 135, \<open># prepare context\<close>. In lines 120 and 121 the two adjacent string
  literals are one literal, and \<open>join\<close> is called on it. \<open>locale.setlocale\<close> (lines 124 to
  128) has its errors suppressed and leaves the instance alone.\<close>

definition prepare_context :: "env \<Rightarrow> string \<Rightarrow> string option \<Rightarrow> error + dict" where
  "prepare_context E lang user =
     (case set_nested (initialize_context E) ''context'' ''client'' ''hl'' (JStr lang) of
        Inl e \<Rightarrow> Inl e
      | Inr ctx \<Rightarrow>
          (case listdir_locales E of
             Inl e \<Rightarrow> Inl e
           | Inr supported_languages \<Rightarrow>
               if lang \<notin> set supported_languages
               then Inl (Exception (join ''Language not supported. Supported languages are , ''
                                         supported_languages))
               else
                 (case translation E lang of
                    Inl e \<Rightarrow> Inl e
                  | Inr _ \<Rightarrow>
                      (case user of
                         None \<Rightarrow> Inr ctx
                       | Some u \<Rightarrow>
                           if u = [] then Inr ctx
                           else set_nested ctx ''context'' ''user'' ''onBehalfOfUser'' (JStr u)))))"

text \<open>Lines 138 to 145, \<open># verify authentication credentials work\<close>: the value assigned to
  \<open>self.sapisid\<close>, if any.\<close>

definition verify_credentials :: "env \<Rightarrow> string option \<Rightarrow> headers \<Rightarrow> error + string option" where
  "verify_credentials E a h =
     (if truthy a then
        (case sapisid_from_cookie E (ci_get h ''cookie'') of
           Inr s \<Rightarrow> Inr (Some s)
         | Inl (KeyError _) \<Rightarrow>
             Inl (Exception ''Your cookie is missing the required value __Secure-3PAPISID'')
         | Inl e \<Rightarrow> Inl e)
      else Inr None)"

text \<open>The constructor: the instance or the exception it raises, and its effects in order.
  The \<open>client_session\<close> argument only selects the HTTP session, which is \<open>post\<close> of the
  environment.\<close>

definition init ::
  "env \<Rightarrow> string option \<Rightarrow> string option \<Rightarrow> (string \<times> string) list option \<Rightarrow> string
     \<Rightarrow> (error + client) \<times> effect list" where
  "init E a user prox lang =
     (let (ho, tr1) = prepare_headers E a;
          (hr, tr2) = resolve_visitor_id E ho;
          tr = tr1 @ tr2
      in case hr of
           Inl e \<Rightarrow> (Inl e, tr)
         | Inr h \<Rightarrow>
             (case prepare_context E lang user of
                Inl e \<Rightarrow> (Inl e, tr)
              | Inr ctx \<Rightarrow>
                  (case verify_credentials E a h of
                     Inl e \<Rightarrow> (Inl e, tr)
                   | Inr s \<Rightarrow>
                       (Inr \<lparr>auth = a, headers = h, context' = ctx, language = lang,
                             sapisid = s, proxies = prox,
                             cookies = [(''CONSENT'', ''YES+1'')]\<rparr>, tr))))"

section \<open>\<open>YTMusic._send_request\<close>\<close>

text \<open>Lines 151 to 155: the header mapping \<open>self.headers\<close> after the signing step, at clock
  reading \<open>now\<close>.\<close>

definition sign_headers :: "env \<Rightarrow> client \<Rightarrow> int \<Rightarrow> error + headers" where
  "sign_headers E c now =
     (if truthy (auth c) then
        (let origin = (case ci_get (headers c) ''origin'' of
                         Some v \<Rightarrow> Some v
                       | None \<Rightarrow> ci_get (headers c) ''x-origin'')
         in case sapisid c of
              None \<Rightarrow> Inl (AttributeError ''YTMusic object has no attribute sapisid'')
            | Some s \<Rightarrow>
                (case origin of
                   None \<Rightarrow> Inl (TypeError ''can only concatenate str (not NoneType) to str'')
                 | Some orig \<Rightarrow>
                     Inr (ci_setitem ''Authorization''
                            (get_authorization (hash_scheme E) now (s @ '' '' @ orig))
                            (headers c))))
      else Inr (headers c))"

text \<open>Lines 163 to 174: what the call does with the response.\<close>

definition handle_response :: "response \<Rightarrow> error + json" where
  "handle_response r =
     (case json_body r of
        Inl e \<Rightarrow> Inl e
      | Inr response_text \<Rightarrow>
          if status r \<ge> 400 then
            (case status_code r of
               None \<Rightarrow> Inl (AttributeError ''response object has no attribute status_code'')
             | Some sc \<Rightarrow>
                 (let message = ''Server returned HTTP '' @ str_int sc @ '': '' @ reason r
                                @ [CHR ''.'', CHR 0x0A]
                  in case py_get response_text ''error'' (JObj []) of
                       Inl e \<Rightarrow> Inl e
                     | Inr err \<Rightarrow>
                         (case py_get err ''message'' JNull of
                            Inl e \<Rightarrow> Inl e
                          | Inr (JStr m) \<Rightarrow> Inl (Exception (message @ m))
                          | Inr _ \<Rightarrow> Inl (TypeError ''can only concatenate str to str''))))
          else Inr response_text)"

text \<open>
  One call: the instance after it, the caller's \<open>body\<close> dict after it, the request handed to
  the session (if the call got that far) and what the call returns or raises.
\<close>

record outcome =
  client_after :: client
  body_after :: dict
  sent :: "request option"
  result :: "error + json"

definition send_request :: "env \<Rightarrow> client \<Rightarrow> int \<Rightarrow> string \<Rightarrow> dict \<Rightarrow> string \<Rightarrow> outcome" where
  "send_request E c now endpoint body additionalParams =
     (let body' = dict_update body (context' c)
      in case sign_headers E c now of
           Inl e \<Rightarrow> \<lparr>client_after = c, body_after = body', sent = None, result = Inl e\<rparr>
         | Inr h \<Rightarrow>
             (let c' = c\<lparr>headers := h\<rparr>;
                  req = \<lparr>req_url = YTM_BASE_API E @ endpoint @ YTM_PARAMS E @ additionalParams,
                         req_json = body', req_headers = h,
                         req_proxies = proxies c', req_cookies = cookies c'\<rparr>
              in \<lparr>client_after = c', body_after = body', sent = Some req,
                  result = (case post E req of Inl e \<Rightarrow> Inl e | Inr r \<Rightarrow> handle_response r)\<rparr>))"

section \<open>Concrete instances\<close>

text \<open>An environment, credential bundles and clients on which the theorems below are
  evaluated. \<open>bundle_text\<close> is a full credential bundle as JSON text, \<open>sid_bundle_text\<close> one
  whose cookie has no \<open>__Secure-3PAPISID\<close> value; the environment decodes these two texts and
  the empty object to the mappings they denote, and reads the two cookies as their pairs.\<close>

definition bundle_text :: string where
  \<open>bundle_text =
     ''{"Cookie": "__Secure-3PAPISID=secret", "X-Origin": "https://music.youtube.com", "X-Goog-Visitor-Id": "vid"}''\<close>

definition sid_bundle_text :: string where
  \<open>sid_bundle_text = ''{"Cookie": "SID=abc", "X-Goog-Visitor-Id": "vid"}''\<close>

definition demo_bundle :: headers where
  "demo_bundle =
     [(''Cookie'', ''__Secure-3PAPISID=secret''),
      (''X-Origin'', ''https://music.youtube.com''),
      (''X-Goog-Visitor-Id'', ''vid'')]"

definition demo_context :: dict where
  "demo_context =
     [(''context'',
       JObj [(''client'', JObj [(''clientName'', JStr ''WEB_REMIX''), (''hl'', JStr ''en'')]),
             (''user'', JObj [])])]"

definition ok_response :: response where
  "ok_response =
     \<lparr>status = 200, status_code = Some 200, reason = ''OK'',
      json_body = Inr (JObj [(''contents'', JArr [JNum 1, JStr ''a''])])\<rparr>"

definition demo_env :: env where
  "demo_env =
     \<lparr>isfile = (\<lambda>p. False),
      load_file = (\<lambda>p. Inl (OtherError ''No such file or directory'')),
      loads = (\<lambda>s. if s = bundle_text then Inr demo_bundle
                    else if s = sid_bundle_text
                    then Inr [(''Cookie'', ''SID=abc''), (''X-Goog-Visitor-Id'', ''vid'')]
                    else if s = ''{}'' then Inr []
                    else Inl (OtherError ''unexpected character: line 1 column 1 (char 0)'')),
      initialize_headers = [(''origin'', ''https://music.youtube.com''),
                            (''x-goog-visitor-id'', ''vid'')],
      gather_visitor_id = (\<lambda>h. Inr [(''X-Goog-Visitor-Id'', ''fresh'')]),
      initialize_context = demo_context,
      listdir_locales = Inr [''en'', ''de''],
      translation = (\<lambda>l. Inr ()),
      cookie_pairs = (\<lambda>c. if c = ''__Secure-3PAPISID=secret''
                           then [(''__Secure-3PAPISID'', ''secret'')]
                           else if c = ''SID=abc'' then [(''SID'', ''abc'')] else []),
      hash_scheme = (\<lambda>t s. ''0a1b''),
      YTM_BASE_API = ''https://music.youtube.com/youtubei/v1/'',
      YTM_PARAMS = ''?alt=json'',
      post = (\<lambda>req. Inr ok_response)\<rparr>"

definition demo_client :: client where
  "demo_client =
     \<lparr>auth = Some bundle_text, headers = demo_bundle, context' = demo_context,
      language = ''en'', sapisid = Some ''secret'', proxies = None,
      cookies = [(''CONSENT'', ''YES+1'')]\<rparr>"

definition anonymous_client :: client where
  "anonymous_client =
     \<lparr>auth = None,
      headers = [(''origin'', ''https://music.youtube.com''), (''x-goog-visitor-id'', ''vid'')],
      context' = demo_context, language = ''en'', sapisid = None, proxies = None,
      cookies = [(''CONSENT'', ''YES+1'')]\<rparr>"

text \<open>The default header table of an unauthenticated client without a visitor identity, and
  what line 110 evaluates to under CPython: \<open>asyncio.gather\<close> is handed a list and its result
  is subscripted, which raises \<open>TypeError\<close> before anything is awaited.\<close>

definition cpython_env :: env where
  "cpython_env =
     demo_env\<lparr>initialize_headers := [(''origin'', ''https://music.youtube.com'')],
              gather_visitor_id := (\<lambda>h. Inl (TypeError ''unhashable type: list''))\<rparr>"

text \<open>A response of the aiohttp session with status 401: the object has \<open>status\<close> and
  \<open>reason\<close>, and no attribute \<open>status_code\<close>.\<close>

definition aiohttp_401 :: "json \<Rightarrow> response" where
  "aiohttp_401 j =
     \<lparr>status = 401, status_code = None, reason = ''Unauthorized'', json_body = Inr j\<rparr>"

section \<open>Decimal rendering is injective\<close>

declare str_nat.simps [simp del]

lemma digit_char_inj: "a < 10 \<Longrightarrow> b < 10 \<Longrightarrow> digit_char a = digit_char b \<Longrightarrow> a = b"
proof -
  assume a: "a < 10" and b: "b < 10" and eq: "digit_char a = digit_char b"
  have d: "distinct ''0123456789''" by simp
  have l: "length ''0123456789'' = 10" by simp
  from a b l have "(''0123456789'' ! a = ''0123456789'' ! b) = (a = b)"
    by (intro nth_eq_iff_index_eq [OF d]) (simp_all only: l)
  with eq show ?thesis by (simp only: digit_char_def)
qed

lemma str_nat_nonempty: "str_nat n \<noteq> []"
  by (subst str_nat.simps) simp

lemma digit_char_in: "d < 10 \<Longrightarrow> digit_char d \<in> set ''0123456789''"
proof -
  assume "d < 10"
  moreover have "length ''0123456789'' = 10" by simp
  ultimately have "d < length ''0123456789''" by (simp only:)
  then show ?thesis unfolding digit_char_def by (rule nth_mem)
qed


lemma str_nat_digits: "set (str_nat n) \<subseteq> set ''0123456789''"
proof (induction n rule: str_nat.induct)
  case (1 n)
  show ?case
  proof (cases "n < 10")
    case True
    then show ?thesis
      using digit_char_in [of n] by (subst str_nat.simps) simp
  next
    case False
    have "n mod 10 < 10" by simp
    then have "digit_char (n mod 10) \<in> set ''0123456789''" by (rule digit_char_in)
    with False 1 show ?thesis
      by (subst str_nat.simps) simp
  qed
qed

lemma str_nat_inj: "str_nat a = str_nat b \<Longrightarrow> a = b"
proof (induction a arbitrary: b rule: str_nat.induct)
  case (1 n)
  show ?case
  proof (cases "n < 10")
    case small: True
    show ?thesis
    proof (cases "b < 10")
      case True
      with small 1(2) have "digit_char n = digit_char b"
        by (simp add: str_nat.simps [of n] str_nat.simps [of b])
      with small True show ?thesis by (rule digit_char_inj)
    next
      case False
      with small 1(2) have "[digit_char n] = str_nat (b div 10) @ [digit_char (b mod 10)]"
        by (simp add: str_nat.simps [of n] str_nat.simps [of b])
      then have "str_nat (b div 10) = []" by (simp add: Cons_eq_append_conv)
      with str_nat_nonempty show ?thesis by blast
    qed
  next
    case big: False
    show ?thesis
    proof (cases "b < 10")
      case True
      with big 1(2) have "str_nat (n div 10) @ [digit_char (n mod 10)] = [digit_char b]"
        by (simp add: str_nat.simps [of n] str_nat.simps [of b])
      then have "str_nat (n div 10) = []" by (simp add: append_eq_Cons_conv)
      with str_nat_nonempty show ?thesis by blast
    next
      case False
      with big 1(2) have eq: "str_nat (n div 10) = str_nat (b div 10)"
        and d: "digit_char (n mod 10) = digit_char (b mod 10)"
        by (simp_all add: str_nat.simps [of n] str_nat.simps [of b])
      from 1(1) [OF big eq] have q: "n div 10 = b div 10" .
      have "n mod 10 < 10" "b mod 10 < 10" by simp_all
      then have r: "n mod 10 = b mod 10" using d by (rule digit_char_inj)
      have "n = 10 * (n div 10) + n mod 10" by simp
      also have "\<dots> = 10 * (b div 10) + b mod 10" by (simp only: q r)
      also have "\<dots> = b" by simp
      finally show ?thesis .
    qed
  qed
qed

lemma str_nat_no_char: "c \<notin> set ''0123456789'' \<Longrightarrow> c \<notin> set (str_nat n)"
  using str_nat_digits [of n] by blast

lemma minus_not_str_nat: "CHR ''-'' # s \<noteq> str_nat m"
proof
  assume "CHR ''-'' # s = str_nat m"
  then have "CHR ''-'' \<in> set (str_nat m)" by (metis list.set_intros(1))
  moreover have "CHR ''-'' \<notin> set (str_nat m)" by (rule str_nat_no_char) simp
  ultimately show False by simp
qed

lemma str_int_inj: "str_int a = str_int b \<Longrightarrow> a = b"
proof -
  assume eq: "str_int a = str_int b"
  consider "a < 0" "b < 0" | "a < 0" "\<not> b < 0" | "\<not> a < 0" "b < 0" | "\<not> a < 0" "\<not> b < 0"
    by blast
  then show ?thesis
  proof cases
    case 1
    with eq have "str_nat (nat (- a)) = str_nat (nat (- b))" by (simp add: str_int_def)
    then have "nat (- a) = nat (- b)" by (rule str_nat_inj)
    with 1 show ?thesis by simp
  next
    case 2
    with eq have "CHR ''-'' # str_nat (nat (- a)) = str_nat (nat b)" by (simp add: str_int_def)
    with minus_not_str_nat show ?thesis by blast
  next
    case 3
    with eq have "CHR ''-'' # str_nat (nat (- b)) = str_nat (nat a)" by (simp add: str_int_def)
    with minus_not_str_nat show ?thesis by blast
  next
    case 4
    with eq have "str_nat (nat a) = str_nat (nat b)" by (simp add: str_int_def)
    then have "nat a = nat b" by (rule str_nat_inj)
    with 4 show ?thesis by simp
  qed
qed

lemma str_int_no_underscore: "CHR ''_'' \<notin> set (str_int t)"
proof -
  have "CHR ''_'' \<notin> set (str_nat n)" for n by (rule str_nat_no_char) simp
  then show ?thesis by (simp add: str_int_def)
qed

lemma sep_prefix_unique:
  "c \<notin> set s1 \<Longrightarrow> c \<notin> set s2 \<Longrightarrow> s1 @ c # r1 = s2 @ c # r2 \<Longrightarrow> s1 = s2"
proof (induction s1 arbitrary: s2)
  case Nil
  then show ?case by (cases s2) auto
next
  case (Cons x xs)
  then show ?case by (cases s2) auto
qed

section \<open>The request signer\<close>

text \<open>
  Claim C7. The Authorization token has the form \<open>SAPISIDHASH <timestamp>_<hash>\<close>; it is
  a function of the hashing scheme, the timestamp and the secret and origin, so the same
  inputs give the same token; and for the same secret and origin, two tokens are equal
  exactly when their timestamps are: different timestamps give different tokens, whatever
  the hashing scheme returns.
\<close>

theorem authorization_token_deterministic:
  "get_authorization H t (secret @ '' '' @ origin)
     = ''SAPISIDHASH '' @ str_int t @ ''_'' @ H t (secret @ '' '' @ origin)
   \<and> (get_authorization H t1 (secret @ '' '' @ origin)
          = get_authorization H t2 (secret @ '' '' @ origin) \<longleftrightarrow> t1 = t2)"
proof -
  let ?a = "secret @ '' '' @ origin"
  have "t1 = t2" if eq: "get_authorization H t1 ?a = get_authorization H t2 ?a"
  proof -
    from eq have "str_int t1 @ CHR ''_'' # H t1 ?a = str_int t2 @ CHR ''_'' # H t2 ?a"
      by (simp add: get_authorization_def)
    with str_int_no_underscore [of t1] str_int_no_underscore [of t2]
    have "str_int t1 = str_int t2" by (rule sep_prefix_unique)
    then show ?thesis by (rule str_int_inj)
  qed
  then show ?thesis by (auto simp add: get_authorization_def)
qed

theorem authorization_token_deterministic_witness:
  "get_authorization (\<lambda>t s. ''0a1b'') 5 (''secret'' @ '' '' @ ''https://music.youtube.com'')
     \<noteq> get_authorization (\<lambda>t s. ''0a1b'') 6 (''secret'' @ '' '' @ ''https://music.youtube.com'')"
  using authorization_token_deterministic
    [of "\<lambda>t s. ''0a1b''" 5 "''secret''" "''https://music.youtube.com''" 5 6, THEN conjunct2]
  by simp

section \<open>Facts about header mappings and dicts\<close>

lemma ci_get_setitem:
  "ci_get (ci_setitem k v h) k' = (if lower k' = lower k then Some v else ci_get h k')"
  by (induction h) (auto simp add: ci_get_def)

lemma ci_get_update_None:
  "ci_get h k = None \<Longrightarrow> ci_get m k = None \<Longrightarrow> ci_get (ci_update h m) k = None"
proof (induction m arbitrary: h)
  case Nil
  then show ?case by (simp add: ci_update_def)
next
  case (Cons p m)
  obtain n v where p: "p = (n, v)" by (cases p)
  from Cons.prems(2) p have ne: "lower n \<noteq> lower k" and rest: "ci_get m k = None"
    by (auto simp add: ci_get_def split: if_splits)
  from ne Cons.prems(1) have "ci_get (ci_setitem n v h) k = None"
    by (simp add: ci_get_setitem)
  from Cons.IH [OF this rest] show ?case
    by (simp add: ci_update_def p)
qed

lemma map_of_dict_setitem:
  "map_of (dict_setitem k v d) k' = (if k' = k then Some v else map_of d k')"
  by (induction d) auto

lemma map_of_dict_update:
  "map_of (dict_update d u) k = (case map_of (rev u) k of None \<Rightarrow> map_of d k | Some v \<Rightarrow> Some v)"
proof (induction u arbitrary: d)
  case Nil
  then show ?case by (simp add: dict_update_def)
next
  case (Cons p u)
  obtain k' v where p: "p = (k', v)" by (cases p)
  have "map_of (dict_update d (p # u)) k = map_of (dict_update (dict_setitem k' v d) u) k"
    by (simp add: dict_update_def p)
  also have "\<dots> = (case map_of (rev u) k of None \<Rightarrow> map_of (dict_setitem k' v d) k
                                             | Some w \<Rightarrow> Some w)"
    by (rule Cons.IH)
  also have "\<dots> = (case map_of (rev (p # u)) k of None \<Rightarrow> map_of d k | Some w \<Rightarrow> Some w)"
    by (simp add: p map_of_dict_setitem map_add_def split: option.splits)
  finally show ?case .
qed

lemma map_of_rev_distinct: "distinct (map fst u) \<Longrightarrow> map_of (rev u) = map_of u"
proof -
  assume d: "distinct (map fst u)"
  then have "distinct (map fst (rev u))" by (simp add: rev_map [symmetric])
  moreover have "set (rev u) = set u" by simp
  ultimately show ?thesis using d by (simp add: map_of_inject_set)
qed

lemma dict_update_overwrites:
  "distinct (map fst u) \<Longrightarrow> map_of u k = Some v \<Longrightarrow> map_of (dict_update d u) k = Some v"
  by (simp add: map_of_dict_update map_of_rev_distinct)

lemma dict_update_keeps:
  "map_of u k = None \<Longrightarrow> map_of (dict_update d u) k = map_of d k"
proof -
  assume "map_of u k = None"
  then have "k \<notin> fst ` set u" by (simp add: map_of_eq_None_iff)
  then have "map_of (rev u) k = None" by (simp add: map_of_eq_None_iff)
  then show ?thesis by (simp add: map_of_dict_update)
qed

section \<open>What one call does\<close>

lemma send_request_sent:
  assumes "sent (send_request E c now ep body ps) = Some req"
  shows "\<exists>h. sign_headers E c now = Inr h
           \<and> req = \<lparr>req_url = YTM_BASE_API E @ ep @ YTM_PARAMS E @ ps,
                    req_json = dict_update body (context' c), req_headers = h,
                    req_proxies = proxies c, req_cookies = cookies c\<rparr>
           \<and> client_after (send_request E c now ep body ps) = c\<lparr>headers := h\<rparr>
           \<and> result (send_request E c now ep body ps)
               = (case post E req of Inl e \<Rightarrow> Inl e | Inr r \<Rightarrow> handle_response r)"
  using assms by (cases "sign_headers E c now") (auto simp add: send_request_def Let_def)

lemma send_request_body: "body_after (send_request E c now ep body ps) = dict_update body (context' c)"
  by (cases "sign_headers E c now") (simp_all add: send_request_def Let_def)

lemmas lower_simps = lower_def lower_char_def

lemmas demo_texts = bundle_text_def sid_bundle_text_def

lemma sign_demo:
  "sign_headers demo_env demo_client 5
     = Inr (demo_bundle @ [(''Authorization'', ''SAPISIDHASH 5_0a1b'')])"
  by (simp add: sign_headers_def demo_env_def demo_client_def demo_bundle_def demo_texts
      ci_get_def lower_simps get_authorization_def str_int_def str_nat.simps [of 5]
      digit_char_def)

text \<open>
  Claim C6. When the session hands back a response with status 200 whose body decodes to the
  JSON value \<open>j\<close>, the call returns exactly \<open>j\<close>.
\<close>

theorem send_request_returns_body:
  assumes "sent (send_request E c now ep body ps) = Some req"
    and "post E req = Inr r"
    and "status r = 200"
    and "json_body r = Inr j"
  shows "result (send_request E c now ep body ps) = Inr j"
proof -
  from send_request_sent [OF assms(1)]
  have "result (send_request E c now ep body ps)
          = (case post E req of Inl e \<Rightarrow> Inl e | Inr r \<Rightarrow> handle_response r)"
    by blast
  with assms(2-4) show ?thesis by (simp add: handle_response_def)
qed

theorem send_request_returns_body_witness:
  "result (send_request demo_env demo_client 5 ''browse'' [(''query'', JStr ''x'')] '''')
     = Inr (JObj [(''contents'', JArr [JNum 1, JStr ''a''])])"
proof -
  let ?out = "send_request demo_env demo_client 5 ''browse'' [(''query'', JStr ''x'')] ''''"
  obtain req where s: "sent ?out = Some req"
    by (simp add: send_request_def sign_demo Let_def)
  have p: "post demo_env req = Inr ok_response" by (simp add: demo_env_def)
  have st: "status ok_response = 200" by (simp add: ok_response_def)
  have j: "json_body ok_response = Inr (JObj [(''contents'', JArr [JNum 1, JStr ''a''])])"
    by (simp add: ok_response_def)
  from send_request_returns_body [OF s p st j] show ?thesis .
qed

section \<open>The signing step and the shared header mapping\<close>

lemma sign_headers_authenticated:
  assumes "truthy (auth c)" and "sign_headers E c now = Inr h"
  shows "\<exists>secret orig.
           sapisid c = Some secret
         \<and> (case ci_get (headers c) ''origin'' of
              Some v \<Rightarrow> Some v
            | None \<Rightarrow> ci_get (headers c) ''x-origin'') = Some orig
         \<and> h = ci_setitem ''Authorization''
                 (get_authorization (hash_scheme E) now (secret @ '' '' @ orig)) (headers c)"
  using assms
  by (cases "sapisid c";
      cases "case ci_get (headers c) ''origin'' of
               Some v \<Rightarrow> Some v
             | None \<Rightarrow> ci_get (headers c) ''x-origin''")
     (simp_all add: sign_headers_def Let_def)

lemma origin_not_authorization:
  "lower ''origin'' \<noteq> lower ''Authorization''" "lower ''x-origin'' \<noteq> lower ''Authorization''"
  by (simp_all add: lower_simps)

text \<open>
  Claim C1, as the code has it. An authenticated call that reaches the POST stores the
  Authorization value it computed in the client's shared header mapping, under the name
  \<open>Authorization\<close>; the transmitted headers are that shared mapping after the store, and it
  stays changed after the call. Every other header is untouched. A later call on the same
  client overwrites the entry and transmits its own value, computed from the same secret and
  origin at its own clock reading.
\<close>

theorem signing_writes_shared_headers:
  assumes "truthy (auth c)" and "sent (send_request E c now ep body ps) = Some req"
  shows "\<exists>secret orig.
      sapisid c = Some secret
    \<and> (case ci_get (headers c) ''origin'' of
         Some v \<Rightarrow> Some v
       | None \<Rightarrow> ci_get (headers c) ''x-origin'') = Some orig
    \<and> headers (client_after (send_request E c now ep body ps))
        = ci_setitem ''Authorization''
            (get_authorization (hash_scheme E) now (secret @ '' '' @ orig)) (headers c)
    \<and> req_headers req = headers (client_after (send_request E c now ep body ps))
    \<and> ci_get (req_headers req) ''Authorization''
        = Some (get_authorization (hash_scheme E) now (secret @ '' '' @ orig))
    \<and> (\<forall>k. lower k \<noteq> lower ''Authorization''
           \<longrightarrow> ci_get (req_headers req) k = ci_get (headers c) k)
    \<and> (\<forall>now2 ep2 body2 ps2 req2.
          sent (send_request E (client_after (send_request E c now ep body ps))
                  now2 ep2 body2 ps2) = Some req2
          \<longrightarrow> ci_get (req_headers req2) ''Authorization''
                = Some (get_authorization (hash_scheme E) now2 (secret @ '' '' @ orig)))"
proof -
  let ?out = "send_request E c now ep body ps"
  let ?origin = "\<lambda>h. case ci_get h ''origin'' of Some v \<Rightarrow> Some v | None \<Rightarrow> ci_get h ''x-origin''"
  from send_request_sent [OF assms(2)] obtain h where
    sg: "sign_headers E c now = Inr h" and rh: "req_headers req = h"
    and ca: "client_after ?out = c\<lparr>headers := h\<rparr>"
    by auto
  from sign_headers_authenticated [OF assms(1) sg] obtain secret orig where
    sec: "sapisid c = Some secret" and org: "?origin (headers c) = Some orig"
    and h: "h = ci_setitem ''Authorization''
                 (get_authorization (hash_scheme E) now (secret @ '' '' @ orig)) (headers c)"
    by blast
  have frame: "ci_get h k = ci_get (headers c) k" if "lower k \<noteq> lower ''Authorization''" for k
    using that by (simp add: h ci_get_setitem)
  have "ci_get h ''origin'' = ci_get (headers c) ''origin''"
    and "ci_get h ''x-origin'' = ci_get (headers c) ''x-origin''"
    by (simp_all add: frame origin_not_authorization)
  with org have org': "?origin h = Some orig"
    by (simp only:)
  have second: "ci_get (req_headers req2) ''Authorization''
                  = Some (get_authorization (hash_scheme E) now2 (secret @ '' '' @ orig))"
    if s2: "sent (send_request E (client_after ?out) now2 ep2 body2 ps2) = Some req2"
    for now2 ep2 body2 ps2 req2
  proof -
    let ?c' = "c\<lparr>headers := h\<rparr>"
    from s2 ca have s2': "sent (send_request E ?c' now2 ep2 body2 ps2) = Some req2" by simp
    from send_request_sent [OF s2'] obtain h2 where
      sg2: "sign_headers E ?c' now2 = Inr h2" and rh2: "req_headers req2 = h2"
      by auto
    have "truthy (auth ?c')" using assms(1) by simp
    from sign_headers_authenticated [OF this sg2] obtain secret2 orig2 where
      sec2: "sapisid ?c' = Some secret2" and org2: "?origin (headers ?c') = Some orig2"
      and h2: "h2 = ci_setitem ''Authorization''
                 (get_authorization (hash_scheme E) now2 (secret2 @ '' '' @ orig2)) (headers ?c')"
      by blast
    have hc: "headers ?c' = h" "sapisid ?c' = sapisid c" by simp_all
    from sec2 sec have "secret2 = secret" by (simp only: hc) simp
    moreover from org2 org' have "orig2 = orig" by (simp only: hc) simp
    ultimately show ?thesis using h2 rh2 by (simp only: hc ci_get_setitem) simp
  qed
  from sec org h rh ca frame second show ?thesis
    by (intro exI [of _ secret] exI [of _ orig]) (simp add: ci_get_setitem)
qed

text \<open>
  Claim C1 as stated says that the signing step leaves the shared header mapping unchanged.
  On the client below it does not: the mapping has no Authorization entry before the call and
  has the computed one after it.
\<close>

theorem signing_mutates_shared_headers:
  "headers (client_after (send_request demo_env demo_client 5 ''browse'' [] []))
     \<noteq> headers demo_client
   \<and> ci_get (headers demo_client) ''Authorization'' = None
   \<and> ci_get (headers (client_after (send_request demo_env demo_client 5 ''browse'' [] [])))
        ''Authorization'' = Some ''SAPISIDHASH 5_0a1b''"
proof -
  have "headers (client_after (send_request demo_env demo_client 5 ''browse'' [] []))
          = demo_bundle @ [(''Authorization'', ''SAPISIDHASH 5_0a1b'')]"
    by (simp add: send_request_def sign_demo Let_def)
  moreover have "headers demo_client = demo_bundle"
    by (simp add: demo_client_def)
  ultimately show ?thesis
    by (simp add: demo_bundle_def ci_get_def lower_simps)
qed

theorem signing_writes_shared_headers_witness:
  "ci_get (headers (client_after (send_request demo_env demo_client 5 ''browse'' [] [])))
     ''Authorization'' = Some ''SAPISIDHASH 5_0a1b''"
proof -
  let ?out = "send_request demo_env demo_client 5 ''browse'' [] []"
  have a: "truthy (auth demo_client)" by (simp add: demo_client_def demo_texts)
  obtain req where s: "sent ?out = Some req"
    by (simp add: send_request_def sign_demo Let_def)
  from signing_writes_shared_headers [OF a s] obtain secret orig where
    sec: "sapisid demo_client = Some secret"
    and org: "(case ci_get (headers demo_client) ''origin'' of
                 Some v \<Rightarrow> Some v
               | None \<Rightarrow> ci_get (headers demo_client) ''x-origin'') = Some orig"
    and hd: "headers (client_after ?out)
               = ci_setitem ''Authorization''
                   (get_authorization (hash_scheme demo_env) 5 (secret @ '' '' @ orig))
                   (headers demo_client)"
    by blast
  from sec have "secret = ''secret''" by (simp add: demo_client_def)
  moreover have "get_authorization (hash_scheme demo_env) 5 t = ''SAPISIDHASH 5_0a1b''" for t
    by (simp add: get_authorization_def demo_env_def str_int_def str_nat.simps [of 5]
        digit_char_def)
  ultimately show ?thesis using hd by (simp add: ci_get_setitem)
qed

section \<open>Responses with an error status\<close>

lemma sign_headers_post: "sign_headers (E\<lparr>post := f\<rparr>) c now = sign_headers E c now"
  by (simp add: sign_headers_def Let_def split: option.splits)

lemma handle_response_fails:
  "status r \<ge> 400 \<Longrightarrow> \<exists>e. handle_response r = Inl e"
  by (auto simp add: handle_response_def Let_def
      split: sum.splits option.splits json.splits)

text \<open>What lines 165 to 173 do once line 167 has a \<open>status_code\<close> to read.\<close>

lemma handle_response_message:
  assumes "status r \<ge> 400" and "status_code r = Some sc" and "json_body r = Inr (JObj d)"
    and "map_of d ''error'' = Some (JObj ed)" and "map_of ed ''message'' = Some (JStr m)"
  shows "handle_response r
           = Inl (Exception (''Server returned HTTP '' @ str_int sc @ '': '' @ reason r
                             @ [CHR ''.'', CHR 0x0A] @ m))"
  using assms by (simp add: handle_response_def Let_def)

lemma handle_response_no_fallback:
  assumes "status r \<ge> 400" and "status_code r = Some sc" and "json_body r = Inr (JObj d)"
    and "map_of d ''error'' = None"
  shows "handle_response r = Inl (TypeError ''can only concatenate str to str'')"
  using assms by (simp add: handle_response_def Let_def)

text \<open>Line 164 reads \<open>status\<close>, line 167 reads \<open>status_code\<close>: on a response object without
  that attribute every error status ends in \<open>AttributeError\<close>, whatever the body holds.\<close>

lemma handle_response_no_status_code:
  assumes "status r \<ge> 400" and "status_code r = None" and "json_body r = Inr j"
  shows "handle_response r
           = Inl (AttributeError ''response object has no attribute status_code'')"
  using assms by (simp add: handle_response_def)

text \<open>
  Claim C3, at the input where the code departs from it: the session answers with status 401
  and the body \<open>{"error": {"message": "x"}}\<close>. The call does not raise an error that carries
  the status and the message \<open>x\<close>: building the message reads \<open>response.status_code\<close>, which
  the response object does not have, and the call raises \<open>AttributeError\<close>.
\<close>

theorem error_status_attribute_error:
  "result (send_request
             (demo_env\<lparr>post := (\<lambda>req. Inr (aiohttp_401
                 (JObj [(''error'', JObj [(''message'', JStr ''x'')])])))\<rparr>)
             demo_client 5 ''browse'' [] [])
     = Inl (AttributeError ''response object has no attribute status_code'')"
  by (simp add: send_request_def sign_headers_post sign_demo Let_def handle_response_def
      aiohttp_401_def)

section \<open>The constructor\<close>

lemma init_alt:
  "init E a user prox lang =
     (let tr = snd (prepare_headers E a) @ snd (resolve_visitor_id E (fst (prepare_headers E a)))
      in case fst (resolve_visitor_id E (fst (prepare_headers E a))) of
           Inl e \<Rightarrow> (Inl e, tr)
         | Inr h \<Rightarrow>
             (case prepare_context E lang user of
                Inl e \<Rightarrow> (Inl e, tr)
              | Inr ctx \<Rightarrow>
                  (case verify_credentials E a h of
                     Inl e \<Rightarrow> (Inl e, tr)
                   | Inr s \<Rightarrow>
                       (Inr \<lparr>auth = a, headers = h, context' = ctx, language = lang,
                             sapisid = s, proxies = prox,
                             cookies = [(''CONSENT'', ''YES+1'')]\<rparr>, tr))))"
  by (simp add: init_def Let_def split_beta)

lemma init_headers_failed:
  "fst (resolve_visitor_id E (fst (prepare_headers E a))) = Inl e
   \<Longrightarrow> fst (init E a user prox lang) = Inl e"
  by (simp add: init_alt Let_def)

lemma init_context_failed:
  "fst (resolve_visitor_id E (fst (prepare_headers E a))) = Inr h
   \<Longrightarrow> prepare_context E lang user = Inl e
   \<Longrightarrow> fst (init E a user prox lang) = Inl e"
  by (simp add: init_alt Let_def)

lemma init_credentials:
  "fst (resolve_visitor_id E (fst (prepare_headers E a))) = Inr h
   \<Longrightarrow> prepare_context E lang user = Inr ctx
   \<Longrightarrow> fst (init E a user prox lang)
       = (case verify_credentials E a h of
            Inl e \<Rightarrow> Inl e
          | Inr s \<Rightarrow> Inr \<lparr>auth = a, headers = h, context' = ctx, language = lang, sapisid = s,
                         proxies = prox, cookies = [(''CONSENT'', ''YES+1'')]\<rparr>)"
  by (simp add: init_alt Let_def split: sum.splits)

lemma init_effects:
  "snd (init E a user prox lang)
     = snd (prepare_headers E a) @ snd (resolve_visitor_id E (fst (prepare_headers E a)))"
  by (simp add: init_alt Let_def split: sum.splits)

lemma init_success:
  assumes "fst (init E a user prox lang) = Inr c"
  shows "\<exists>h ctx s. fst (resolve_visitor_id E (fst (prepare_headers E a))) = Inr h
           \<and> prepare_context E lang user = Inr ctx
           \<and> verify_credentials E a h = Inr s
           \<and> c = \<lparr>auth = a, headers = h, context' = ctx, language = lang, sapisid = s,
                   proxies = prox, cookies = [(''CONSENT'', ''YES+1'')]\<rparr>"
  using assms by (auto simp add: init_alt Let_def split: sum.splits)

lemma join_contains: "l \<in> set xs \<Longrightarrow> \<exists>p s. join sep xs = p @ l @ s"
proof (induction sep xs rule: join.induct)
  case (1 sep)
  then show ?case by simp
next
  case (2 sep x)
  then have "join sep [x] = [] @ l @ []" by simp
  then show ?case by blast
next
  case (3 sep x y ys)
  show ?case
  proof (cases "l = x")
    case True
    then have "join sep (x # y # ys) = [] @ l @ (sep @ join sep (y # ys))" by simp
    then show ?thesis by blast
  next
    case False
    with 3 obtain p s where "join sep (y # ys) = p @ l @ s" by auto
    then have "join sep (x # y # ys) = (x @ sep @ p) @ l @ s" by simp
    then show ?thesis by blast
  qed
qed

text \<open>
  Claim C2, as the code has it. When a non-empty \<open>auth\<close> argument is neither an existing file
  that loads nor text that decodes, the constructor itself catches the failure, prints a
  diagnostic that ends with the reason, and goes on with \<open>self.headers\<close> unassigned: the
  loading failure is not raised, and the printed line is the only effect of the construction.
\<close>

theorem credential_failure_printed:
  assumes "s \<noteq> []"
    and "(if isfile E s then load_file E s else loads E s) = Inl e"
  shows "prepare_headers E (Some s)
           = (None,
              [Print (''Failed loading provided credentials. Make sure to provide a string or a file path. ''
                      @ ''Reason: '' @ str_exc e)])
       \<and> snd (init E (Some s) user prox lang)
           = [Print (''Failed loading provided credentials. Make sure to provide a string or a file path. ''
                     @ ''Reason: '' @ str_exc e)]"
proof -
  from assms have ph: "prepare_headers E (Some s)
           = (None,
              [Print (''Failed loading provided credentials. Make sure to provide a string or a file path. ''
                      @ ''Reason: '' @ str_exc e)])"
    by (simp add: prepare_headers_def)
  then show ?thesis
    by (simp add: init_effects resolve_visitor_id_def)
qed

text \<open>
  Claim C2 as stated says that such a construction fails with \<open>CredentialError\<close> and does
  not go on. With the text \<open>not json\<close> as \<open>auth\<close> the constructor prints and goes on to line
  108, where reading the unassigned \<open>self.headers\<close> raises \<open>AttributeError\<close>.
\<close>

theorem credential_failure_not_raised:
  "init demo_env (Some ''not json'') None None ''en''
     = (Inl (AttributeError ''YTMusic object has no attribute headers''),
        [Print (''Failed loading provided credentials. Make sure to provide a string or a file path. ''
                @ ''Reason: unexpected character: line 1 column 1 (char 0)'')])"
  by (simp add: init_def prepare_headers_def resolve_visitor_id_def demo_env_def demo_texts)

theorem credential_failure_printed_witness:
  "snd (init demo_env (Some ''not json'') None None ''en'')
     = [Print (''Failed loading provided credentials. Make sure to provide a string or a file path. ''
               @ ''Reason: unexpected character: line 1 column 1 (char 0)'')]"
proof -
  have ne: "''not json'' \<noteq> []" by simp
  have ld: "(if isfile demo_env ''not json'' then load_file demo_env ''not json''
             else loads demo_env ''not json'')
              = Inl (OtherError ''unexpected character: line 1 column 1 (char 0)'')"
    by (simp add: demo_env_def demo_texts)
  from credential_failure_printed [OF ne ld, of None None "''en''"] show ?thesis
    by simp
qed

section \<open>The language check\<close>

lemma unsupported_language_never_constructs:
  assumes "listdir_locales E = Inr langs" and "lang \<notin> set langs"
  shows "fst (init E a user prox lang) \<noteq> Inr c"
proof
  assume "fst (init E a user prox lang) = Inr c"
  from init_success [OF this] obtain ctx where "prepare_context E lang user = Inr ctx"
    by blast
  with assms show False
    by (simp add: prepare_context_def split: sum.splits)
qed

text \<open>The message of line 119 when the construction gets that far: the listing joined by the
  one literal that lines 120 and 121 form.\<close>

lemma language_check_message:
  assumes "fst (resolve_visitor_id E (fst (prepare_headers E a))) = Inr h"
    and "set_nested (initialize_context E) ''context'' ''client'' ''hl'' (JStr lang) = Inr ctx"
    and "listdir_locales E = Inr langs"
    and "lang \<notin> set langs"
  shows "fst (init E a user prox lang)
           = Inl (Exception (join ''Language not supported. Supported languages are , '' langs))"
proof -
  from assms(2-4) have "prepare_context E lang user
      = Inl (Exception (join ''Language not supported. Supported languages are , '' langs))"
    by (simp add: prepare_context_def)
  with assms(1) show ?thesis by (rule init_context_failed)
qed

lemma demo_anonymous_headers:
  "fst (resolve_visitor_id demo_env (fst (prepare_headers demo_env None)))
     = Inr [(''origin'', ''https://music.youtube.com''), (''x-goog-visitor-id'', ''vid'')]"
  by (simp add: prepare_headers_def resolve_visitor_id_def demo_env_def ci_get_def lower_simps)

lemma demo_bundle_headers:
  "fst (resolve_visitor_id demo_env (fst (prepare_headers demo_env (Some bundle_text))))
     = Inr demo_bundle"
proof -
  have "prepare_headers demo_env (Some bundle_text) = (Some demo_bundle, [])"
    by (simp add: prepare_headers_def demo_env_def bundle_text_def)
  then show ?thesis
    by (simp add: resolve_visitor_id_def demo_bundle_def ci_get_def lower_simps)
qed

lemma demo_set_hl:
  "set_nested (initialize_context demo_env) ''context'' ''client'' ''hl'' (JStr l)
     = Inr [(''context'',
             JObj [(''client'', JObj [(''clientName'', JStr ''WEB_REMIX''), (''hl'', JStr l)]),
                   (''user'', JObj [])])]"
  by (simp add: set_nested_def demo_env_def demo_context_def)

text \<open>
  Claim C4, at the inputs where the code departs from it. With a full credential bundle, the
  language \<open>fr\<close> and the locales \<open>en\<close> and \<open>de\<close>, the message of the exception is not a sentence
  followed by the supported languages: the sentence of lines 120 and 121 is the separator of
  \<open>join\<close>, so it stands between the two languages, and with the single locale \<open>en\<close> the
  message is \<open>en\<close> alone. Without a visitor identity in the headers the constructor has raised
  \<open>TypeError\<close> at line 110 before it looks at the language at all.
\<close>

theorem unsupported_language_message_garbled:
  "fst (init demo_env (Some bundle_text) None None ''fr'')
     = Inl (Exception ''enLanguage not supported. Supported languages are , de'')
   \<and> fst (init (demo_env\<lparr>listdir_locales := Inr [''en'']\<rparr>) (Some bundle_text) None None ''fr'')
     = Inl (Exception ''en'')
   \<and> init cpython_env None None None ''fr''
     = (Inl (TypeError ''unhashable type: list''), [Bootstrap])"
proof (intro conjI)
  have l: "listdir_locales demo_env = Inr [''en'', ''de'']" by (simp add: demo_env_def)
  have n: "''fr'' \<notin> set [''en'', ''de'']" by simp
  from language_check_message [OF demo_bundle_headers demo_set_hl l n]
  show "fst (init demo_env (Some bundle_text) None None ''fr'')
          = Inl (Exception ''enLanguage not supported. Supported languages are , de'')"
    by simp
next
  let ?E = "demo_env\<lparr>listdir_locales := Inr [''en'']\<rparr>"
  have "prepare_headers ?E (Some bundle_text) = (Some demo_bundle, [])"
    by (simp add: prepare_headers_def demo_env_def bundle_text_def)
  then have h: "fst (resolve_visitor_id ?E (fst (prepare_headers ?E (Some bundle_text))))
                  = Inr demo_bundle"
    by (simp add: resolve_visitor_id_def demo_bundle_def ci_get_def lower_simps)
  have c: "set_nested (initialize_context ?E) ''context'' ''client'' ''hl'' (JStr ''fr'')
             = Inr [(''context'',
                     JObj [(''client'', JObj [(''clientName'', JStr ''WEB_REMIX''),
                                              (''hl'', JStr ''fr'')]),
                           (''user'', JObj [])])]"
    by (simp add: demo_set_hl)
  have l: "listdir_locales ?E = Inr [''en'']" by simp
  have n: "''fr'' \<notin> set [''en'']" by simp
  from language_check_message [OF h c l n]
  show "fst (init ?E (Some bundle_text) None None ''fr'') = Inl (Exception ''en'')"
    by simp
next
  show "init cpython_env None None None ''fr''
          = (Inl (TypeError ''unhashable type: list''), [Bootstrap])"
    by (simp add: init_def prepare_headers_def resolve_visitor_id_def cpython_env_def demo_env_def
        ci_get_def lower_simps)
qed

section \<open>The credential check\<close>

lemma demo_prepare_context: "prepare_context demo_env ''en'' None = Inr demo_context"
  by (simp add: prepare_context_def demo_set_hl) (simp add: demo_env_def demo_context_def)

lemma demo_sid_headers:
  "fst (resolve_visitor_id demo_env (fst (prepare_headers demo_env (Some sid_bundle_text))))
     = Inr [(''Cookie'', ''SID=abc''), (''X-Goog-Visitor-Id'', ''vid'')]"
proof -
  have "prepare_headers demo_env (Some sid_bundle_text)
          = (Some [(''Cookie'', ''SID=abc''), (''X-Goog-Visitor-Id'', ''vid'')], [])"
    by (simp add: prepare_headers_def demo_env_def demo_texts)
  then show ?thesis
    by (simp add: resolve_visitor_id_def ci_get_def lower_simps)
qed

text \<open>
  Claim C5, as the code has it. Take an authenticated construction whose credential bundle
  loads and holds a visitor identity, and whose bundle has no \<open>cookie\<close> field or a cookie
  without the \<open>__Secure-3PAPISID\<close> value. It never yields an instance. The context step of
  lines 113 to 135 comes before the credential check of lines 138 to 145: when that step
  completes, the constructor raises \<open>Exception\<close> with the message that the cookie is missing
  the required value; when that step raises (an unsupported language, say), its exception is
  the one the caller gets and the cookie is never examined.
\<close>

theorem missing_cookie_value_rejected:
  assumes "s \<noteq> []"
    and "(if isfile E s then load_file E s else loads E s) = Inr h"
    and "ci_get h ''x-goog-visitor-id'' \<noteq> None"
    and "ci_get h ''cookie'' = None
         \<or> (\<exists>ck. ci_get h ''cookie'' = Some ck
                \<and> map_of (cookie_pairs E ck) ''__Secure-3PAPISID'' = None)"
  shows "(\<forall>c. fst (init E (Some s) user prox lang) \<noteq> Inr c)
       \<and> (\<forall>ctx. prepare_context E lang user = Inr ctx
              \<longrightarrow> fst (init E (Some s) user prox lang)
                    = Inl (Exception ''Your cookie is missing the required value __Secure-3PAPISID''))
       \<and> (\<forall>e. prepare_context E lang user = Inl e
              \<longrightarrow> fst (init E (Some s) user prox lang) = Inl e)"
proof -
  from assms(1,2) have "prepare_headers E (Some s) = (Some h, [])"
    by (simp add: prepare_headers_def)
  with assms(3) have h: "fst (resolve_visitor_id E (fst (prepare_headers E (Some s)))) = Inr h"
    by (simp add: resolve_visitor_id_def)
  from assms(4) have "sapisid_from_cookie E (ci_get h ''cookie'')
                        = Inl (KeyError ''__Secure-3PAPISID'')"
    by (auto simp add: sapisid_from_cookie_def)
  with assms(1) have v: "verify_credentials E (Some s) h
      = Inl (Exception ''Your cookie is missing the required value __Secure-3PAPISID'')"
    by (simp add: verify_credentials_def)
  have ok: "fst (init E (Some s) user prox lang)
              = Inl (Exception ''Your cookie is missing the required value __Secure-3PAPISID'')"
    if "prepare_context E lang user = Inr ctx" for ctx
    using init_credentials [OF h that] v by simp
  have bad: "fst (init E (Some s) user prox lang) = Inl e"
    if "prepare_context E lang user = Inl e" for e
    using h that by (rule init_context_failed)
  have "fst (init E (Some s) user prox lang) \<noteq> Inr c" for c
    using ok bad by (cases "prepare_context E lang user") simp_all
  with ok bad show ?thesis by blast
qed

text \<open>
  Claim C5 as stated says that such a construction fails with the credential error and never
  with another one. With the bundle \<open>sid_bundle_text\<close>, whose cookie has no
  \<open>__Secure-3PAPISID\<close> value, and the unsupported language \<open>fr\<close>, the constructor raises the
  exception of the language check. With the empty bundle, which has neither a cookie nor a
  visitor identity, it raises the \<open>TypeError\<close> of line 110.
\<close>

theorem missing_cookie_other_error:
  "fst (init demo_env (Some sid_bundle_text) None None ''fr'')
     = Inl (Exception ''enLanguage not supported. Supported languages are , de'')
   \<and> fst (init cpython_env (Some ''{}'') None None ''en'')
     = Inl (TypeError ''unhashable type: list'')"
proof (intro conjI)
  have l: "listdir_locales demo_env = Inr [''en'', ''de'']" by (simp add: demo_env_def)
  have n: "''fr'' \<notin> set [''en'', ''de'']" by simp
  from language_check_message [OF demo_sid_headers demo_set_hl l n]
  show "fst (init demo_env (Some sid_bundle_text) None None ''fr'')
          = Inl (Exception ''enLanguage not supported. Supported languages are , de'')"
    by simp
next
  have "prepare_headers cpython_env (Some ''{}'') = (Some [], [])"
    by (simp add: prepare_headers_def cpython_env_def demo_env_def demo_texts)
  then have "fst (resolve_visitor_id cpython_env (fst (prepare_headers cpython_env (Some ''{}''))))
               = Inl (TypeError ''unhashable type: list'')"
    by (simp add: resolve_visitor_id_def cpython_env_def ci_get_def)
  then show "fst (init cpython_env (Some ''{}'') None None ''en'')
               = Inl (TypeError ''unhashable type: list'')"
    by (rule init_headers_failed)
qed

theorem missing_cookie_value_rejected_witness:
  "fst (init demo_env (Some sid_bundle_text) None None ''en'')
     = Inl (Exception ''Your cookie is missing the required value __Secure-3PAPISID'')"
proof -
  let ?h = "[(''Cookie'', ''SID=abc''), (''X-Goog-Visitor-Id'', ''vid'')]"
  have ne: "sid_bundle_text \<noteq> []" by (simp add: sid_bundle_text_def)
  have ld: "(if isfile demo_env sid_bundle_text then load_file demo_env sid_bundle_text
             else loads demo_env sid_bundle_text) = Inr ?h"
    by (simp add: demo_env_def demo_texts)
  have vid: "ci_get ?h ''x-goog-visitor-id'' \<noteq> None"
    by (simp add: ci_get_def lower_simps)
  have ck: "ci_get ?h ''cookie'' = None
            \<or> (\<exists>ck. ci_get ?h ''cookie'' = Some ck
                   \<and> map_of (cookie_pairs demo_env ck) ''__Secure-3PAPISID'' = None)"
    by (simp add: ci_get_def lower_simps demo_env_def)
  from missing_cookie_value_rejected
    [OF ne ld vid ck, where lang = "''en''" and user = None and prox = None]
    demo_prepare_context
  show ?thesis by blast
qed

section \<open>Calls of an unauthenticated client\<close>

lemma resolve_visitor_id_result:
  assumes "fst (resolve_visitor_id E (Some h0)) = Inr h"
  shows "h = h0 \<or> (\<exists>m. gather_visitor_id E h0 = Inr m \<and> h = ci_update h0 m)"
  using assms by (auto simp add: resolve_visitor_id_def split: if_splits sum.splits)

lemma prepare_headers_unauthenticated:
  "\<not> truthy a \<Longrightarrow> prepare_headers E a = (Some (initialize_headers E), [])"
  by (cases a) (simp_all add: prepare_headers_def)

lemma send_request_unauthenticated:
  assumes "\<not> truthy (auth c)"
  shows "send_request E c now ep body ps
           = \<lparr>client_after = c, body_after = dict_update body (context' c),
              sent = Some \<lparr>req_url = YTM_BASE_API E @ ep @ YTM_PARAMS E @ ps,
                           req_json = dict_update body (context' c),
                           req_headers = headers c,
                           req_proxies = proxies c, req_cookies = cookies c\<rparr>,
              result = (case post E \<lparr>req_url = YTM_BASE_API E @ ep @ YTM_PARAMS E @ ps,
                                      req_json = dict_update body (context' c),
                                      req_headers = headers c,
                                      req_proxies = proxies c, req_cookies = cookies c\<rparr> of
                          Inl e \<Rightarrow> Inl e
                        | Inr r \<Rightarrow> handle_response r)\<rparr>"
  using assms by (simp add: send_request_def sign_headers_def Let_def)

text \<open>
  Claim C9. On a client constructed without \<open>auth\<close> the signing step is skipped: the call
  leaves the instance as it was and transmits the stored headers as they are; whatever the
  hashing scheme and the clock are, the call is the same, so no Authorization value is
  computed; and as neither the default header table nor the visitor identity carries an
  Authorization header, the transmitted request has none.
\<close>

theorem unauthenticated_request_unsigned:
  assumes "\<not> truthy a"
    and "fst (init E a user prox lang) = Inr c"
    and "ci_get (initialize_headers E) ''Authorization'' = None"
    and "\<And>m. gather_visitor_id E (initialize_headers E) = Inr m
             \<Longrightarrow> ci_get m ''Authorization'' = None"
  shows "client_after (send_request E c now ep body ps) = c
       \<and> (\<exists>req. sent (send_request E c now ep body ps) = Some req
              \<and> req_headers req = headers c
              \<and> ci_get (req_headers req) ''Authorization'' = None)
       \<and> (\<forall>H now'. send_request (E\<lparr>hash_scheme := H\<rparr>) c now' ep body ps
                      = send_request E c now ep body ps)"
proof -
  from init_success [OF assms(2)] obtain h where
    h: "fst (resolve_visitor_id E (fst (prepare_headers E a))) = Inr h"
    and au: "auth c = a" and hc: "headers c = h"
    by auto
  from h assms(1) have "fst (resolve_visitor_id E (Some (initialize_headers E))) = Inr h"
    by (simp add: prepare_headers_unauthenticated)
  from resolve_visitor_id_result [OF this] assms(3,4)
  have none: "ci_get h ''Authorization'' = None"
    by (auto simp add: ci_get_update_None)
  from assms(1) au have na: "\<not> truthy (auth c)" by simp
  show ?thesis
    using none hc by (simp add: send_request_unauthenticated [OF na])
qed

theorem unauthenticated_request_unsigned_witness:
  "client_after (send_request demo_env anonymous_client 5 ''browse'' [] []) = anonymous_client
   \<and> send_request (demo_env\<lparr>hash_scheme := (\<lambda>t s. ''ffff'')\<rparr>) anonymous_client 6 ''browse'' [] []
       = send_request demo_env anonymous_client 5 ''browse'' [] []"
proof -
  have t: "\<not> truthy None" by simp
  have i: "fst (init demo_env None None None ''en'') = Inr anonymous_client"
    using init_credentials [OF demo_anonymous_headers demo_prepare_context, of None]
    by (simp add: verify_credentials_def anonymous_client_def)
  have d: "ci_get (initialize_headers demo_env) ''Authorization'' = None"
    by (simp add: demo_env_def ci_get_def lower_simps)
  have g: "ci_get m ''Authorization'' = None"
    if "gather_visitor_id demo_env (initialize_headers demo_env) = Inr m" for m
    using that by (auto simp add: demo_env_def ci_get_def lower_simps)
  from unauthenticated_request_unsigned [OF t i d g, of 5 "''browse''" "[]" "[]"]
  show ?thesis by blast
qed

section \<open>The context and the visitor identity of a constructed client\<close>

lemma set_nested_key: "set_nested d k1 k2 k3 v = Inr d' \<Longrightarrow> map_of d' k1 \<noteq> None"
  by (auto simp add: set_nested_def map_of_dict_setitem split: sum.splits)

lemma prepare_context_key:
  assumes "prepare_context E lang user = Inr ctx"
  shows "map_of ctx ''context'' \<noteq> None"
proof -
  from assms obtain ctx0 where
    c0: "set_nested (initialize_context E) ''context'' ''client'' ''hl'' (JStr lang) = Inr ctx0"
    and c: "ctx = ctx0 \<or> (\<exists>u. set_nested ctx0 ''context'' ''user'' ''onBehalfOfUser'' (JStr u) = Inr ctx)"
    by (auto simp add: prepare_context_def split: sum.splits if_splits option.splits)
  from c show ?thesis
    using set_nested_key [OF c0] set_nested_key by blast
qed

text \<open>Lines 108 to 111 for every environment: with a visitor identity in the bundle nothing
  is evaluated; without one, line 110 is evaluated once, a mapping it returns is merged into
  the headers, and an exception it raises ends the construction.\<close>

lemma visitor_id_present:
  "ci_get h ''x-goog-visitor-id'' \<noteq> None \<Longrightarrow> resolve_visitor_id E (Some h) = (Inr h, [])"
  by (simp add: resolve_visitor_id_def)

lemma visitor_id_merged:
  "ci_get h ''x-goog-visitor-id'' = None \<Longrightarrow> gather_visitor_id E h = Inr m
   \<Longrightarrow> resolve_visitor_id E (Some h) = (Inr (ci_update h m), [Bootstrap])"
  by (simp add: resolve_visitor_id_def)

lemma visitor_id_failure_fatal:
  assumes "fst (prepare_headers E a) = Some h"
    and "ci_get h ''x-goog-visitor-id'' = None"
    and "gather_visitor_id E h = Inl e"
  shows "fst (init E a user prox lang) = Inl e"
proof -
  from assms have "fst (resolve_visitor_id E (fst (prepare_headers E a))) = Inl e"
    by (simp add: resolve_visitor_id_def)
  then show ?thesis by (rule init_headers_failed)
qed

text \<open>
  Claim C8, at the input where the code departs from it: the default header table has no
  visitor identity, and line 110 evaluates as it does under CPython. The constructor raises
  \<open>TypeError\<close>; no visitor identity is merged and no instance is built.
\<close>

theorem bootstrap_raises_type_error:
  "init cpython_env None None None ''en'' = (Inl (TypeError ''unhashable type: list''), [Bootstrap])"
  by (simp add: init_def prepare_headers_def resolve_visitor_id_def cpython_env_def demo_env_def
      ci_get_def lower_simps)

text \<open>
  Claim C10. The caller's \<open>body\<close> dict is updated in place with the client's context, and the
  updated dict is the transmitted JSON body. Every top-level key of the context (a dict has
  each key once) ends up with the context's value, which overwrites an entry the caller had
  under the same key; every other key keeps the caller's value. The context of a constructed client always
  has the key \<open>context\<close>.
\<close>

theorem send_request_merges_context:
  "body_after (send_request E c now ep body ps) = dict_update body (context' c)
   \<and> (\<forall>req. sent (send_request E c now ep body ps) = Some req
          \<longrightarrow> req_json req = dict_update body (context' c))
   \<and> (distinct (map fst (context' c))
        \<longrightarrow> (\<forall>k v. map_of (context' c) k = Some v
               \<longrightarrow> map_of (dict_update body (context' c)) k = Some v))
   \<and> (\<forall>k. map_of (context' c) k = None
          \<longrightarrow> map_of (dict_update body (context' c)) k = map_of body k)
   \<and> (\<forall>E' a user prox lang. fst (init E' a user prox lang) = Inr c
          \<longrightarrow> map_of (context' c) ''context'' \<noteq> None)"
proof (intro conjI allI impI)
  show "body_after (send_request E c now ep body ps) = dict_update body (context' c)"
    by (rule send_request_body)
next
  fix req assume "sent (send_request E c now ep body ps) = Some req"
  from send_request_sent [OF this] show "req_json req = dict_update body (context' c)"
    by auto
next
  fix k v assume "distinct (map fst (context' c))" and "map_of (context' c) k = Some v"
  then show "map_of (dict_update body (context' c)) k = Some v"
    by (rule dict_update_overwrites)
next
  fix k assume "map_of (context' c) k = None"
  then show "map_of (dict_update body (context' c)) k = map_of body k"
    by (rule dict_update_keeps)
next
  fix E' a user prox lang assume "fst (init E' a user prox lang) = Inr c"
  from init_success [OF this] obtain ctx where
    "prepare_context E' lang user = Inr ctx" and "context' c = ctx"
    by auto
  then show "map_of (context' c) ''context'' \<noteq> None"
    by (simp add: prepare_context_key)
qed

theorem send_request_merges_context_witness:
  "map_of (body_after (send_request demo_env demo_client 5 ''browse''
             [(''context'', JNull), (''query'', JStr ''x'')] [])) ''context''
     = map_of demo_context ''context''
   \<and> map_of (body_after (send_request demo_env demo_client 5 ''browse''
             [(''context'', JNull), (''query'', JStr ''x'')] [])) ''query''
     = Some (JStr ''x'')"
proof -
  let ?body = "[(''context'', JNull), (''query'', JStr ''x'')]"
  note m = send_request_merges_context [of demo_env demo_client 5 "''browse''" ?body "[]"]
  have ctx: "context' demo_client = demo_context" by (simp add: demo_client_def)
  have d: "distinct (map fst (context' demo_client))" by (simp add: ctx demo_context_def)
  have hit: "map_of (context' demo_client) ''context''
               = Some (JObj [(''client'', JObj [(''clientName'', JStr ''WEB_REMIX''),
                                                (''hl'', JStr ''en'')]),
                             (''user'', JObj [])])"
    by (simp add: ctx demo_context_def)
  have miss: "map_of (context' demo_client) ''query'' = None"
    by (simp add: ctx demo_context_def)
  from m d hit have "map_of (dict_update ?body (context' demo_client)) ''context''
      = map_of (context' demo_client) ''context''"
    by simp
  moreover from m miss have "map_of (dict_update ?body (context' demo_client)) ''query''
      = map_of ?body ''query''"
    by blast
  moreover from m have "body_after (send_request demo_env demo_client 5 ''browse'' ?body [])
      = dict_update ?body (context' demo_client)"
    by blast
  ultimately show ?thesis by (simp add: ctx)
qed

end
